theory Spec2Isabelle
  imports Complex_Main
begin

section \<open>JSON values and the parts of encoding/json that the handler relies on\<close>

text \<open>
  The handler calls \<^verbatim>\<open>json.Unmarshal\<close> with four kinds of target: a map value that is
  not a pointer (in \<^verbatim>\<open>getFromForm\<close>), a pointer to \<^verbatim>\<open>RequestOptions\<close>, a pointer to
  \<^verbatim>\<open>requestOptionsCompatibility\<close> and a pointer to a \<^verbatim>\<open>map[string]interface{}\<close>.

  The text-level grammar of JSON is not part of this repository. It enters every
  definition below as a parameter \<open>P\<close> of type \<open>json_parser\<close>: \<open>P data = None\<close> when the
  bytes are not one well-formed JSON text (the decoder then reports a syntax error and
  touches nothing), and \<open>P data = Some v\<close> when they are, with \<open>v\<close> the value written
  there. Object members are kept in the order of the text, duplicates included, because
  the decoder stores them one after the other. A number is kept as the literal that is
  written in the text.
\<close>

datatype json =
    JNull
  | JBool bool
  | JNumber string
  | JString string
  | JArray "json list"
  | JObject "(string \<times> json) list"

type_synonym json_parser = "string \<Rightarrow> json option"

datatype json_error = SyntaxError | InvalidUnmarshalError | UnmarshalTypeError

text \<open>
  The values that the decoder puts into an \<^verbatim>\<open>interface{}\<close>: \<^verbatim>\<open>nil\<close>, a \<^verbatim>\<open>bool\<close>, a
  \<^verbatim>\<open>float64\<close>, a \<^verbatim>\<open>string\<close>, a \<^verbatim>\<open>[]interface{}\<close> or a \<^verbatim>\<open>map[string]interface{}\<close>. The type
  \<^verbatim>\<open>float64\<close> is the type parameter \<open>'f\<close>, and \<^verbatim>\<open>strconv.ParseFloat(s, 64)\<close>, by which the
  decoder turns a number literal into a \<^verbatim>\<open>float64\<close>, is a parameter \<open>N\<close> of type
  \<open>number_parser\<close>: \<open>N s = Some f\<close> when the literal is in range and \<open>f\<close> is the nearest
  \<^verbatim>\<open>float64\<close>, \<open>N s = None\<close> when it is out of range.
\<close>

datatype 'f iface =
    INil
  | IBool bool
  | IFloat64 'f
  | IString string
  | ISlice "'f iface list"
  | IMap "string \<Rightarrow> 'f iface option"

type_synonym 'f number_parser = "string \<Rightarrow> 'f option"

text \<open>The Go type \<^verbatim>\<open>map[string]interface{}\<close>: \<open>None\<close> is the nil map.\<close>

type_synonym 'f go_map = "(string \<rightharpoonup> 'f iface) option"

record 'f RequestOptions =
  Query :: string
  Variables :: "'f go_map"
  OperationName :: string

record requestOptionsCompatibility =
  cQuery :: string
  cVariables :: string
  cOperationName :: string

text \<open>The zero values \<^verbatim>\<open>RequestOptions{}\<close> and \<^verbatim>\<open>requestOptionsCompatibility{}\<close>.\<close>

definition zero_RequestOptions :: "'f RequestOptions" where
  "zero_RequestOptions = \<lparr>Query = [], Variables = None, OperationName = []\<rparr>"

definition zero_requestOptionsCompatibility :: requestOptionsCompatibility where
  "zero_requestOptionsCompatibility = \<lparr>cQuery = [], cVariables = [], cOperationName = []\<rparr>"

subsection \<open>Matching an object key against the struct tags\<close>

text \<open>
  The decoder prefers the field whose tag equals the key and otherwise takes the first
  field whose tag equals it under case folding. Folding maps the ASCII letters to one
  case and the two runes that Unicode folds onto ASCII letters, the Kelvin sign
  (UTF-8 E2 84 AA) onto k and the long s (UTF-8 C5 BF) onto s. No two of the three tags
  fold to the same name, so the field is determined by the folded key.
\<close>

definition lower :: "char \<Rightarrow> char" where
  "lower c = (let n = (of_char c :: nat) in
     if 65 \<le> n \<and> n \<le> 90 then char_of (n + 32) else c)"

fun foldName :: "string \<Rightarrow> string" where
  "foldName (a # b # c # cs) =
     (if a = CHR 0xE2 \<and> b = CHR 0x84 \<and> c = CHR 0xAA then CHR ''k'' # foldName cs
      else if a = CHR 0xC5 \<and> b = CHR 0xBF then CHR ''s'' # foldName (c # cs)
      else lower a # foldName (b # c # cs))"
| "foldName [a, b] =
     (if a = CHR 0xC5 \<and> b = CHR 0xBF then [CHR ''s''] else [lower a, lower b])"
| "foldName [a] = [lower a]"
| "foldName [] = []"

datatype field = FQuery | FVariables | FOperationName

definition field_of :: "string \<Rightarrow> field option" where
  "field_of key =
     (let k = foldName key in
      if k = ''query'' then Some FQuery
      else if k = ''variables'' then Some FVariables
      else if k = ''operationname'' then Some FOperationName
      else None)"

subsection \<open>Decoding a JSON value into an interface{}\<close>

text \<open>The decoder keeps the earliest error and goes on with the next value.\<close>

definition saveError :: "json_error option \<Rightarrow> json_error option \<Rightarrow> json_error option" where
  "saveError saved err = (case saved of None \<Rightarrow> err | Some e \<Rightarrow> Some e)"

text \<open>Storing members one after the other: a later member overwrites an earlier one.\<close>

definition set_members :: "(string \<times> 'v) list \<Rightarrow> (string \<rightharpoonup> 'v) \<Rightarrow> (string \<rightharpoonup> 'v)" where
  "set_members kvs m = fold (\<lambda>(k, v) m. m(k \<mapsto> v)) kvs m"

text \<open>
  A number literal out of the range of \<^verbatim>\<open>float64\<close> is a type error, and the value stored
  for it is \<^verbatim>\<open>nil\<close>; the decoder goes on with the rest of the value. The result is the
  earliest error, if any, and the value.
\<close>

primrec valueInterface :: "'f number_parser \<Rightarrow> json \<Rightarrow> json_error option \<times> 'f iface" where
  "valueInterface N JNull = (None, INil)"
| "valueInterface N (JBool b) = (None, IBool b)"
| "valueInterface N (JNumber s) =
     (case N s of None \<Rightarrow> (Some UnmarshalTypeError, INil) | Some f \<Rightarrow> (None, IFloat64 f))"
| "valueInterface N (JString s) = (None, IString s)"
| "valueInterface N (JArray vs) =
     (let rs = map (valueInterface N) vs
      in (fold (\<lambda>r saved. saveError saved (fst r)) rs None, ISlice (map snd rs)))"
| "valueInterface N (JObject kvs) =
     (let rs = map (map_prod id (valueInterface N)) kvs
      in (fold (\<lambda>r saved. saveError saved (fst (snd r))) rs None,
          IMap (set_members (map (map_prod id snd) rs) Map.empty)))"

subsection \<open>Storing one JSON value into a field\<close>

text \<open>
  Into a \<^verbatim>\<open>string\<close>: a JSON string is stored, \<^verbatim>\<open>null\<close> leaves the field as it is without
  an error, anything else is a type error and leaves the field as it is.
\<close>

fun store_string :: "json \<Rightarrow> string \<Rightarrow> json_error option \<times> string" where
  "store_string (JString s) cur = (None, s)"
| "store_string JNull cur = (None, cur)"
| "store_string v cur = (Some UnmarshalTypeError, cur)"

text \<open>
  Into a \<^verbatim>\<open>map[string]interface{}\<close>: \<^verbatim>\<open>null\<close> sets the nil map; the members of an object
  are decoded as \<^verbatim>\<open>interface{}\<close> values and stored one after the other into the existing
  map (a fresh one when it is nil); anything else is a type error and leaves the map as
  it is.
\<close>

fun store_map :: "'f number_parser \<Rightarrow> json \<Rightarrow> 'f go_map \<Rightarrow> json_error option \<times> 'f go_map" where
  "store_map N JNull cur = (None, None)"
| "store_map N (JObject kvs) cur =
     (let rs = map (map_prod id (valueInterface N)) kvs
      in (fold (\<lambda>r saved. saveError saved (fst (snd r))) rs None,
          Some (set_members (map (map_prod id snd) rs)
                  (case cur of None \<Rightarrow> Map.empty | Some m \<Rightarrow> m))))"
| "store_map N v cur = (Some UnmarshalTypeError, cur)"

subsection \<open>Decoding an object into the two structs\<close>

fun object_RequestOptions ::
  "'f number_parser \<Rightarrow> (string \<times> json) list \<Rightarrow> 'f RequestOptions \<Rightarrow> json_error option
     \<Rightarrow> json_error option \<times> 'f RequestOptions" where
  "object_RequestOptions N [] opts saved = (saved, opts)"
| "object_RequestOptions N ((key, v) # ms) opts saved =
     (case field_of key of
        None \<Rightarrow> object_RequestOptions N ms opts saved
      | Some FQuery \<Rightarrow>
          (let (e, s) = store_string v (Query opts)
           in object_RequestOptions N ms (opts\<lparr>Query := s\<rparr>) (saveError saved e))
      | Some FVariables \<Rightarrow>
          (let (e, m) = store_map N v (Variables opts)
           in object_RequestOptions N ms (opts\<lparr>Variables := m\<rparr>) (saveError saved e))
      | Some FOperationName \<Rightarrow>
          (let (e, s) = store_string v (OperationName opts)
           in object_RequestOptions N ms (opts\<lparr>OperationName := s\<rparr>) (saveError saved e)))"

fun object_requestOptionsCompatibility ::
  "(string \<times> json) list \<Rightarrow> requestOptionsCompatibility \<Rightarrow> json_error option
     \<Rightarrow> json_error option \<times> requestOptionsCompatibility" where
  "object_requestOptionsCompatibility [] opts saved = (saved, opts)"
| "object_requestOptionsCompatibility ((key, v) # ms) opts saved =
     (case field_of key of
        None \<Rightarrow> object_requestOptionsCompatibility ms opts saved
      | Some FQuery \<Rightarrow>
          (let (e, s) = store_string v (cQuery opts)
           in object_requestOptionsCompatibility ms (opts\<lparr>cQuery := s\<rparr>) (saveError saved e))
      | Some FVariables \<Rightarrow>
          (let (e, s) = store_string v (cVariables opts)
           in object_requestOptionsCompatibility ms (opts\<lparr>cVariables := s\<rparr>) (saveError saved e))
      | Some FOperationName \<Rightarrow>
          (let (e, s) = store_string v (cOperationName opts)
           in object_requestOptionsCompatibility ms (opts\<lparr>cOperationName := s\<rparr>)
                (saveError saved e)))"

subsection \<open>The four uses of json.Unmarshal\<close>

text \<open>
  \<^verbatim>\<open>json.Unmarshal(data, variables)\<close> with \<^verbatim>\<open>variables\<close> a map value, not a pointer: after
  the syntax check the decoder refuses the target, so the map is never changed.
\<close>

definition Unmarshal_value ::
  "json_parser \<Rightarrow> string \<Rightarrow> 'f go_map \<Rightarrow> json_error option \<times> 'f go_map" where
  "Unmarshal_value P data variables =
     (case P data of
        None \<Rightarrow> (Some SyntaxError, variables)
      | Some v \<Rightarrow> (Some InvalidUnmarshalError, variables))"

text \<open>
  A struct target takes an object; \<^verbatim>\<open>null\<close> has no effect on a struct; every other
  value is a type error.
\<close>

definition Unmarshal_RequestOptions ::
  "json_parser \<Rightarrow> 'f number_parser \<Rightarrow> string \<Rightarrow> 'f RequestOptions
     \<Rightarrow> json_error option \<times> 'f RequestOptions" where
  "Unmarshal_RequestOptions P N data opts =
     (case P data of
        None \<Rightarrow> (Some SyntaxError, opts)
      | Some JNull \<Rightarrow> (None, opts)
      | Some (JObject ms) \<Rightarrow> object_RequestOptions N ms opts None
      | Some v \<Rightarrow> (Some UnmarshalTypeError, opts))"

definition Unmarshal_requestOptionsCompatibility ::
  "json_parser \<Rightarrow> string \<Rightarrow> requestOptionsCompatibility
     \<Rightarrow> json_error option \<times> requestOptionsCompatibility" where
  "Unmarshal_requestOptionsCompatibility P data opts =
     (case P data of
        None \<Rightarrow> (Some SyntaxError, opts)
      | Some JNull \<Rightarrow> (None, opts)
      | Some (JObject ms) \<Rightarrow> object_requestOptionsCompatibility ms opts None
      | Some v \<Rightarrow> (Some UnmarshalTypeError, opts))"

definition Unmarshal_map ::
  "json_parser \<Rightarrow> 'f number_parser \<Rightarrow> string \<Rightarrow> 'f go_map
     \<Rightarrow> json_error option \<times> 'f go_map" where
  "Unmarshal_map P N data m =
     (case P data of
        None \<Rightarrow> (Some SyntaxError, m)
      | Some v \<Rightarrow> store_map N v m)"

section \<open>The incoming request\<close>

text \<open>
  \<^verbatim>\<open>url.Values\<close> and \<^verbatim>\<open>http.Header\<close> map a key to its list of values; \<^verbatim>\<open>Get\<close> returns the
  first value, or the empty string when there is none. \<^verbatim>\<open>Header.Get\<close> looks the key up in
  its canonical form; the one key the handler asks for, \<^verbatim>\<open>Content-Type\<close>, is canonical,
  and a header map is keyed by canonical names.
\<close>

type_synonym Values = "string \<rightharpoonup> string list"

definition Get :: "Values \<Rightarrow> string \<Rightarrow> string" where
  "Get values key = (case values key of None \<Rightarrow> [] | Some [] \<Rightarrow> [] | Some (v # vs) \<Rightarrow> v)"

text \<open>
  The body is an \<^verbatim>\<open>io.ReadCloser\<close>; what the handler sees of it is the outcome of
  \<^verbatim>\<open>ioutil.ReadAll\<close>, an error or all the bytes (a read that never ends is not modelled).
  A request is one that net/http hands to a handler: the pointers \<^verbatim>\<open>r\<close> and \<^verbatim>\<open>r.URL\<close> are
  not nil, and \<open>URL_Query\<close> is the value of \<^verbatim>\<open>r.URL.Query()\<close>. A nil \<^verbatim>\<open>r.Body\<close> is \<open>None\<close>.
\<close>

datatype ReadCloser = ReadFails | Bytes string

record Request =
  Method :: string
  Header :: Values
  URL_Query :: Values
  Body :: "ReadCloser option"

text \<open>
  \<^verbatim>\<open>r.ParseForm()\<close> belongs to net/http. It looks at the method, the headers, the URL and
  the body of the request, so it is a parameter \<open>F\<close> that receives the whole request:
  \<open>F r = None\<close> when it returns an error, \<open>F r = Some form\<close> when it succeeds and
  leaves \<open>form\<close> in \<^verbatim>\<open>r.PostForm\<close>.
\<close>

type_synonym form_parser = "Request \<Rightarrow> Values option"

text \<open>What a call does to the request besides returning: the log of its reads.\<close>

datatype effect = ReadAll_Body | ParseForm_Request

datatype go_panic = IndexOutOfRange | Panic string

section \<open>strings.Split with a one-byte separator\<close>

fun Split :: "string \<Rightarrow> char \<Rightarrow> string list" where
  "Split [] sep = [[]]"
| "Split (c # cs) sep =
     (if c = sep then [] # Split cs sep
      else (case Split cs sep of [] \<Rightarrow> [[c]] | t # ts \<Rightarrow> (c # t) # ts))"

section \<open>handler.go: getFromForm and NewRequestOptions\<close>

definition ContentTypeJSON :: string where
  "ContentTypeJSON = ''application/json''"

definition ContentTypeGraphQL :: string where
  "ContentTypeGraphQL = ''application/graphql''"

definition ContentTypeFormURLEncoded :: string where
  "ContentTypeFormURLEncoded = ''application/x-www-form-urlencoded''"

text \<open>The result is a pointer: \<open>None\<close> is \<^verbatim>\<open>nil\<close>.\<close>

definition getFromForm :: "json_parser \<Rightarrow> Values \<Rightarrow> 'f RequestOptions option" where
  "getFromForm P values =
     (let query = Get values ''query'' in
      if query \<noteq> [] then
        (let variables = None;
             variablesStr = Get values ''variables'';
             (err, variables) = Unmarshal_value P variablesStr variables
         in Some \<lparr>Query = query, Variables = variables,
                  OperationName = Get values ''operationName''\<rparr>)
      else None)"

text \<open>
  The decoding of the body in the last case of the switch, after the body has been read.
  The case \<^verbatim>\<open>ContentTypeJSON\<close> falls through to \<^verbatim>\<open>default\<close>, so both are the final
  \<open>else\<close> of \<open>NewRequestOptions\<close> below.
\<close>

definition decode_json_body ::
  "json_parser \<Rightarrow> 'f number_parser \<Rightarrow> string \<Rightarrow> 'f RequestOptions" where
  "decode_json_body P N body =
     (let opts = zero_RequestOptions;
          (err, opts) = Unmarshal_RequestOptions P N body opts
      in if err \<noteq> None then
           (let optsCompatible = zero_requestOptionsCompatibility;
                (err1, optsCompatible) = Unmarshal_requestOptionsCompatibility P body optsCompatible;
                (err2, variables) = Unmarshal_map P N (cVariables optsCompatible) (Variables opts)
            in opts\<lparr>Variables := variables\<rparr>)
         else opts)"

definition NewRequestOptions ::
  "json_parser \<Rightarrow> 'f number_parser \<Rightarrow> form_parser \<Rightarrow> Request
     \<Rightarrow> (go_panic + 'f RequestOptions option) \<times> effect list" where
  "NewRequestOptions P N F r =
     (case getFromForm P (URL_Query r) of
        Some reqOpt \<Rightarrow> (Inr (Some reqOpt), [])
      | None \<Rightarrow>
          if Method r \<noteq> ''POST'' then (Inr (Some zero_RequestOptions), [])
          else
            (case Body r of
               None \<Rightarrow> (Inr (Some zero_RequestOptions), [])
             | Some stream \<Rightarrow>
                 (let contentTypeStr = Get (Header r) ''Content-Type'';
                      contentTypeTokens = Split contentTypeStr (CHR '';'')
                  in case contentTypeTokens of
                       [] \<Rightarrow> (Inl IndexOutOfRange, [])
                     | contentType # rest \<Rightarrow>
                         if contentType = ContentTypeGraphQL then
                           (case stream of
                              ReadFails \<Rightarrow> (Inr (Some zero_RequestOptions), [ReadAll_Body])
                            | Bytes body \<Rightarrow>
                                (Inr (Some \<lparr>Query = body, Variables = None, OperationName = []\<rparr>),
                                 [ReadAll_Body]))
                         else if contentType = ContentTypeFormURLEncoded then
                           (case F r of
                              None \<Rightarrow> (Inr (Some zero_RequestOptions), [ParseForm_Request])
                            | Some postForm \<Rightarrow>
                                (case getFromForm P postForm of
                                   Some reqOpt \<Rightarrow> (Inr (Some reqOpt), [ParseForm_Request])
                                 | None \<Rightarrow> (Inr (Some zero_RequestOptions), [ParseForm_Request])))
                         else
                           (case stream of
                              ReadFails \<Rightarrow> (Inr (Some zero_RequestOptions), [ReadAll_Body])
                            | Bytes body \<Rightarrow>
                                (Inr (Some (decode_json_body P N body)), [ReadAll_Body])))))"

section \<open>handler.go: Config, NewConfig and New\<close>

text \<open>
  The schema type belongs to the graphql package and stays a type parameter \<open>'s\<close>; a
  pointer to it is an option. A \<^verbatim>\<open>RequestCallbackFn\<close> returns nothing, so it is modelled
  by its action on whatever it changes (a type parameter \<open>'w\<close>); a func value may be
  \<^verbatim>\<open>nil\<close>, hence the option.
\<close>

type_synonym 'w RequestCallbackFn = "(int \<Rightarrow> string \<Rightarrow> string \<Rightarrow> string \<Rightarrow> int \<Rightarrow> 'w \<Rightarrow> 'w) option"

record ('s, 'w) Handler =
  Schema :: "'s option"
  Pretty :: bool
  BeforeRequest :: "'w RequestCallbackFn"
  AfterRequest :: "'w RequestCallbackFn"

record ('s, 'w) Config =
  Schema :: "'s option"
  Pretty :: bool
  BeforeRequest :: "'w RequestCallbackFn"
  AfterRequest :: "'w RequestCallbackFn"

definition NewConfig :: "('s, 'w) Config" where
  "NewConfig =
     \<lparr>Config.Schema = None,
      Config.Pretty = True,
      Config.BeforeRequest = Some (\<lambda>elapsed url query token id w. w),
      Config.AfterRequest = Some (\<lambda>elapsed url query token id w. w)\<rparr>"

definition New :: "('s, 'w) Config option \<Rightarrow> go_panic + ('s, 'w) Handler" where
  "New p0 =
     (let p = (case p0 of None \<Rightarrow> NewConfig | Some c \<Rightarrow> c) in
      if Config.Schema p = None then Inl (Panic ''undefined GraphQL schema'')
      else Inr \<lparr>Handler.Schema = Config.Schema p,
                Handler.Pretty = Config.Pretty p,
                Handler.BeforeRequest = Config.BeforeRequest p,
                Handler.AfterRequest = Config.AfterRequest p\<rparr>)"

section \<open>The variant of the file with the stack-trace setting\<close>

text \<open>
  In this variant \<^verbatim>\<open>Handler\<close> and \<^verbatim>\<open>Config\<close> carry \<^verbatim>\<open>LogSlowResponses\<close> and
  \<^verbatim>\<open>ShowFullStackTrace\<close> instead of the callbacks. The composite literal in \<^verbatim>\<open>New\<close>
  names three of the four fields of \<^verbatim>\<open>Handler\<close>; the fourth gets the zero value of
  \<^verbatim>\<open>bool\<close>.
\<close>

record 's Handler_part_000 =
  Schema :: "'s option"
  Pretty :: bool
  LogSlowResponses :: bool
  ShowFullStackTrace :: bool

record 's Config_part_000 =
  Schema :: "'s option"
  Pretty :: bool
  LogSlowResponses :: bool
  ShowFullStackTrace :: bool

definition NewConfig_part_000 :: "'s Config_part_000" where
  "NewConfig_part_000 =
     \<lparr>Config_part_000.Schema = None,
      Config_part_000.Pretty = True,
      Config_part_000.LogSlowResponses = False,
      Config_part_000.ShowFullStackTrace = False\<rparr>"

definition New_part_000 :: "'s Config_part_000 option \<Rightarrow> go_panic + 's Handler_part_000" where
  "New_part_000 p0 =
     (let p = (case p0 of None \<Rightarrow> NewConfig_part_000 | Some c \<Rightarrow> c) in
      if Config_part_000.Schema p = None then Inl (Panic ''undefined GraphQL schema'')
      else Inr \<lparr>Handler_part_000.Schema = Config_part_000.Schema p,
                Handler_part_000.Pretty = Config_part_000.Pretty p,
                Handler_part_000.LogSlowResponses = Config_part_000.LogSlowResponses p,
                Handler_part_000.ShowFullStackTrace = False\<rparr>)"

section \<open>Notions used to state the properties\<close>

text \<open>The values that an object's members hold for one field of the struct, in order.\<close>

definition members_of :: "field \<Rightarrow> (string \<times> json) list \<Rightarrow> json list" where
  "members_of f ms = map snd (filter (\<lambda>(k, v). field_of k = Some f) ms)"

text \<open>
  The string that a \<^verbatim>\<open>string\<close> field holds after these values have been offered to it: the
  last JSON string among them, and the empty string when there is none (no member, or
  only \<^verbatim>\<open>null\<close> and values of other kinds).
\<close>

definition string_field :: "json list \<Rightarrow> string" where
  "string_field vs = foldl (\<lambda>cur v. case v of JString s \<Rightarrow> s | _ \<Rightarrow> cur) [] vs"

text \<open>Every number literal inside the value is in the range of \<^verbatim>\<open>float64\<close>.\<close>

primrec numbers_in_range :: "'f number_parser \<Rightarrow> json \<Rightarrow> bool" where
  "numbers_in_range N JNull = True"
| "numbers_in_range N (JBool b) = True"
| "numbers_in_range N (JNumber s) = (N s \<noteq> None)"
| "numbers_in_range N (JString s) = True"
| "numbers_in_range N (JArray vs) = list_all id (map (numbers_in_range N) vs)"
| "numbers_in_range N (JObject kvs) = list_all snd (map (map_prod id (numbers_in_range N)) kvs)"

text \<open>
  The Go value that a JSON value denotes: a number literal is its \<^verbatim>\<open>float64\<close>, and \<^verbatim>\<open>nil\<close>
  when it is out of range; an object is the map of its members, the last one winning
  where a key occurs twice. \<open>go_members\<close> is that map for a list of members.
\<close>

primrec go_value :: "'f number_parser \<Rightarrow> json \<Rightarrow> 'f iface" where
  "go_value N JNull = INil"
| "go_value N (JBool b) = IBool b"
| "go_value N (JNumber s) = (case N s of None \<Rightarrow> INil | Some f \<Rightarrow> IFloat64 f)"
| "go_value N (JString s) = IString s"
| "go_value N (JArray vs) = ISlice (map (go_value N) vs)"
| "go_value N (JObject kvs) = IMap (map_of (rev (map (map_prod id (go_value N)) kvs)))"

definition go_members :: "'f number_parser \<Rightarrow> (string \<times> json) list \<Rightarrow> (string \<rightharpoonup> 'f iface)" where
  "go_members N kvs = map_of (rev (map (map_prod id (go_value N)) kvs))"

text \<open>The first \<^verbatim>\<open>;\<close>-delimited token of a header value, said without \<open>Split\<close>.\<close>

definition first_token :: "string \<Rightarrow> string" where
  "first_token s = takeWhile (\<lambda>c. c \<noteq> CHR '';'') s"

subsection \<open>Example inputs\<close>

text \<open>
  Bodies with \<^verbatim>\<open>variables\<close> as an object and bodies with \<^verbatim>\<open>variables\<close> as a string that
  holds the text of an object (its inner quotes escaped by a backslash, byte 5C); a
  reader that knows these texts and the inner objects and rejects every other input; and
  a number conversion that knows the literal \<^verbatim>\<open>7\<close> and reports every other literal, among
  them \<^verbatim>\<open>1e400\<close>, as out of range.
\<close>

definition example_body :: string where
  \<open>example_body = ''{"query":"{ hero }","variables":{"id":"7"},"operationName":"Q"}''\<close>

definition example_body_string_variables :: string where
  \<open>example_body_string_variables =
     ''{"query":"{ hero }","variables":"{'' @ [CHR 0x5C] @ ''"id'' @ [CHR 0x5C] @ ''":''
       @ [CHR 0x5C] @ ''"7'' @ [CHR 0x5C] @ ''"}","operationName":"Q"}''\<close>

definition example_body_big_number :: string where
  \<open>example_body_big_number =
     ''{"query":"{ hero }","variables":{"n":1e400},"operationName":"Q"}''\<close>

definition example_body_string_big_number :: string where
  \<open>example_body_string_big_number =
     ''{"query":"{ hero }","variables":"{'' @ [CHR 0x5C] @ ''"n'' @ [CHR 0x5C]
       @ ''":1e400}","operationName":"Q"}''\<close>

definition example_body_no_operationName :: string where
  \<open>example_body_no_operationName =
     ''{"query":"{ hero }","variables":"{'' @ [CHR 0x5C] @ ''"id'' @ [CHR 0x5C]
       @ ''":7}"}''\<close>

definition example_body_bad_variables :: string where
  \<open>example_body_bad_variables = ''{"query":"{ hero }","variables":"{oops"}''\<close>

definition example_parser :: json_parser where
  \<open>example_parser data =
     (if data = example_body then
        Some (JObject [(''query'', JString ''{ hero }''),
                       (''variables'', JObject [(''id'', JString ''7'')]),
                       (''operationName'', JString ''Q'')])
      else if data = example_body_string_variables then
        Some (JObject [(''query'', JString ''{ hero }''),
                       (''variables'', JString ''{"id":"7"}''),
                       (''operationName'', JString ''Q'')])
      else if data = example_body_big_number then
        Some (JObject [(''query'', JString ''{ hero }''),
                       (''variables'', JObject [(''n'', JNumber ''1e400'')]),
                       (''operationName'', JString ''Q'')])
      else if data = example_body_string_big_number then
        Some (JObject [(''query'', JString ''{ hero }''),
                       (''variables'', JString ''{"n":1e400}''),
                       (''operationName'', JString ''Q'')])
      else if data = example_body_no_operationName then
        Some (JObject [(''query'', JString ''{ hero }''),
                       (''variables'', JString ''{"id":7}'')])
      else if data = example_body_bad_variables then
        Some (JObject [(''query'', JString ''{ hero }''),
                       (''variables'', JString ''{oops'')])
      else if data = ''{"id":"7"}'' then
        Some (JObject [(''id'', JString ''7'')])
      else if data = ''{"n":1e400}'' then
        Some (JObject [(''n'', JNumber ''1e400'')])
      else if data = ''{"id":7}'' then
        Some (JObject [(''id'', JNumber ''7'')])
      else None)\<close>

definition example_float :: "rat number_parser" where
  "example_float s = (if s = ''7'' then Some 7 else None)"

text \<open>A form parser that rejects every body.\<close>

definition example_form :: form_parser where
  "example_form r = None"

definition example_post :: "string \<Rightarrow> string \<Rightarrow> Request" where
  "example_post contentType body =
     \<lparr>Method = ''POST'', Header = [''Content-Type'' \<mapsto> [contentType]],
      URL_Query = Map.empty, Body = Some (Bytes body)\<rparr>"

definition example_get :: "Values \<Rightarrow> Request" where
  "example_get query = \<lparr>Method = ''GET'', Header = Map.empty, URL_Query = query, Body = None\<rparr>"

section \<open>Helper lemmas\<close>

lemma set_members_map_of: "set_members kvs m = m ++ map_of (rev kvs)"
proof (induction kvs arbitrary: m)
  case Nil
  show ?case by (simp add: set_members_def)
next
  case (Cons kv kvs)
  obtain k v where kv: "kv = (k, v)" by (cases kv)
  have "set_members (kv # kvs) m = set_members kvs (m(k \<mapsto> v))"
    by (simp add: set_members_def kv)
  also have "\<dots> = m(k \<mapsto> v) ++ map_of (rev kvs)"
    by (rule Cons.IH)
  also have "m(k \<mapsto> v) = m ++ [k \<mapsto> v]"
    by simp
  also have "m ++ [k \<mapsto> v] ++ map_of (rev kvs) = m ++ map_of (rev (kv # kvs))"
    by (simp only: kv rev.simps map_of_append map_add_assoc map_of.simps fst_conv snd_conv)
  finally show ?case .
qed

lemma fold_saveError_None:
  "fold (\<lambda>r saved. saveError saved (g r)) rs init = None \<longleftrightarrow>
     init = None \<and> (\<forall>r \<in> set rs. g r = None)"
  by (induction rs arbitrary: init) (auto simp add: saveError_def split: option.splits)

lemma valueInterface_error: "fst (valueInterface N v) = None \<longleftrightarrow> numbers_in_range N v"
proof (induction v)
  case (JArray vs)
  then show ?case
    by (auto simp add: Let_def fold_saveError_None list_all_iff)
next
  case (JObject kvs)
  then show ?case
    by (fastforce simp add: Let_def fold_saveError_None list_all_iff)
qed (simp_all split: option.splits)

lemma valueInterface_value: "snd (valueInterface N v) = go_value N v"
proof (induction v)
  case (JArray vs)
  then show ?case by (simp add: Let_def)
next
  case (JObject kvs)
  have "map (map_prod id snd) (map (map_prod id (valueInterface N)) kvs) =
        map (map_prod id (go_value N)) kvs"
    using JObject by (auto simp add: map_prod_def split: prod.splits)
  then show ?case
    by (simp only: valueInterface.simps go_value.simps Let_def snd_conv set_members_map_of
        empty_map_add)
qed (simp_all split: option.splits)

lemma store_map_object_value:
  "snd (store_map N (JObject V) cur) =
     Some ((case cur of None \<Rightarrow> Map.empty | Some m \<Rightarrow> m) ++ go_members N V)"
proof -
  have "map (map_prod id snd) (map (map_prod id (valueInterface N)) V) =
        map (map_prod id (go_value N)) V"
    by (auto simp add: map_prod_def valueInterface_value split: prod.splits)
  then show ?thesis
    by (simp only: store_map.simps Let_def snd_conv set_members_map_of go_members_def)
qed

lemma store_map_object_error:
  "fst (store_map N (JObject V) cur) = None \<longleftrightarrow> numbers_in_range N (JObject V)"
  using valueInterface_error [of N "JObject V"] by (simp add: Let_def)

lemma store_string_value: "snd (store_string v cur) = (case v of JString s \<Rightarrow> s | _ \<Rightarrow> cur)"
  by (cases v) simp_all


lemma Split_first: "\<exists>rest. Split s (CHR '';'') = first_token s # rest"
  unfolding first_token_def by (induction s) (auto split: list.splits)

lemma Split_not_Nil: "Split s sep \<noteq> []"
  by (cases s) (auto split: list.splits)

lemma getFromForm_None: "Get values ''query'' = [] \<Longrightarrow> getFromForm P values = None"
  by (simp add: getFromForm_def)

lemma getFromForm_Some:
  "Get values ''query'' \<noteq> [] \<Longrightarrow>
   getFromForm P values =
     Some \<lparr>Query = Get values ''query'', Variables = None,
           OperationName = Get values ''operationName''\<rparr>"
  by (simp add: getFromForm_def Unmarshal_value_def split: option.splits)

lemma members_of_Nil: "members_of f [] = []"
  by (simp add: members_of_def)

lemma members_of_Cons:
  "members_of f ((k, v) # ms) =
     (if field_of k = Some f then v # members_of f ms else members_of f ms)"
  by (simp add: members_of_def)

lemma store_string_err: "fst (store_string v cur) = fst (store_string v cur')"
  by (cases v) simp_all

lemma store_map_err: "fst (store_map N v cur) = fst (store_map N v cur')"
  by (cases v) (simp_all add: Let_def)

lemma object_RequestOptions_Query:
  "Query (snd (object_RequestOptions N ms opts saved)) =
     foldl (\<lambda>cur v. snd (store_string v cur)) (Query opts) (members_of FQuery ms)"
  by (induction N ms opts saved rule: object_RequestOptions.induct)
     (auto simp add: members_of_Nil members_of_Cons split: option.splits field.splits prod.splits)

lemma object_RequestOptions_OperationName:
  "OperationName (snd (object_RequestOptions N ms opts saved)) =
     foldl (\<lambda>cur v. snd (store_string v cur)) (OperationName opts)
       (members_of FOperationName ms)"
  by (induction N ms opts saved rule: object_RequestOptions.induct)
     (auto simp add: members_of_Nil members_of_Cons split: option.splits field.splits prod.splits)

lemma object_RequestOptions_Variables:
  "Variables (snd (object_RequestOptions N ms opts saved)) =
     foldl (\<lambda>cur v. snd (store_map N v cur)) (Variables opts) (members_of FVariables ms)"
  by (induction N ms opts saved rule: object_RequestOptions.induct)
     (auto simp add: members_of_Nil members_of_Cons split: option.splits field.splits prod.splits)

lemma object_requestOptionsCompatibility_cVariables:
  "cVariables (snd (object_requestOptionsCompatibility ms opts saved)) =
     foldl (\<lambda>cur v. snd (store_string v cur)) (cVariables opts) (members_of FVariables ms)"
  by (induction ms opts saved rule: object_requestOptionsCompatibility.induct)
     (auto simp add: members_of_Nil members_of_Cons split: option.splits field.splits prod.splits)

lemma object_RequestOptions_error:
  "fst (object_RequestOptions N ms opts saved) = None \<longleftrightarrow>
     saved = None
     \<and> (\<forall>v \<in> set (members_of FQuery ms). fst (store_string v []) = None)
     \<and> (\<forall>v \<in> set (members_of FVariables ms). fst (store_map N v None) = None)
     \<and> (\<forall>v \<in> set (members_of FOperationName ms). fst (store_string v []) = None)"
proof (induction N ms opts saved rule: object_RequestOptions.induct)
  case (1 N opts saved)
  show ?case by (simp add: members_of_Nil)
next
  case (2 N key v ms opts saved)
  show ?case
  proof (cases "field_of key")
    case None
    then show ?thesis using 2(1) by (simp add: members_of_Cons)
  next
    case (Some f)
    show ?thesis
    proof (cases f)
      case FQuery
      obtain e s where st: "store_string v (Query opts) = (e, s)"
        by (cases "store_string v (Query opts)")
      have e: "fst (store_string v []) = e"
        using st store_string_err [of v "[]" "Query opts"] by simp
      show ?thesis
        using 2(2) [OF Some FQuery st [symmetric] refl] Some FQuery st e
        by (cases saved) (auto simp add: members_of_Cons saveError_def)
    next
      case FVariables
      obtain e s where st: "store_map N v (Variables opts) = (e, s)"
        by (cases "store_map N v (Variables opts)")
      have e: "fst (store_map N v None) = e"
        using st store_map_err [of N v None "Variables opts"] by simp
      show ?thesis
        using 2(3) [OF Some FVariables st [symmetric] refl] Some FVariables st e
        by (cases saved) (auto simp add: members_of_Cons saveError_def)
    next
      case FOperationName
      obtain e s where st: "store_string v (OperationName opts) = (e, s)"
        by (cases "store_string v (OperationName opts)")
      have e: "fst (store_string v []) = e"
        using st store_string_err [of v "[]" "OperationName opts"] by simp
      show ?thesis
        using 2(4) [OF Some FOperationName st [symmetric] refl] Some FOperationName st e
        by (cases saved) (auto simp add: members_of_Cons saveError_def)
    qed
  qed
qed

lemma foldl_store_string:
  "foldl (\<lambda>cur v. snd (store_string v cur)) [] vs = string_field vs"
  by (simp add: string_field_def store_string_value)

lemma RequestOptions_eqI:
  "Query a = q \<Longrightarrow> Variables a = v \<Longrightarrow> OperationName a = n \<Longrightarrow>
   (a::'f RequestOptions) = \<lparr>Query = q, Variables = v, OperationName = n\<rparr>"
  by (cases a) simp

lemma NewRequestOptions_json_branch:
  assumes "Get (URL_Query r) ''query'' = []"
    and "Method r = ''POST''"
    and "Body r = Some stream"
    and "first_token (Get (Header r) ''Content-Type'') \<noteq> ContentTypeGraphQL"
    and "first_token (Get (Header r) ''Content-Type'') \<noteq> ContentTypeFormURLEncoded"
  shows "NewRequestOptions P N F r =
           (case stream of
              ReadFails \<Rightarrow> (Inr (Some zero_RequestOptions), [ReadAll_Body])
            | Bytes body \<Rightarrow> (Inr (Some (decode_json_body P N body)), [ReadAll_Body]))"
proof -
  obtain rest where "Split (Get (Header r) ''Content-Type'') (CHR '';'') =
      first_token (Get (Header r) ''Content-Type'') # rest"
    using Split_first by blast
  then show ?thesis
    using assms by (simp add: NewRequestOptions_def getFromForm_None)
qed

text \<open>
  Whatever the second decoding does, the query and the operation name are those of the
  first decoding.
\<close>

lemma decode_json_body_strings:
  assumes "P body = Some (JObject ms)"
  shows "Query (decode_json_body P N body) = string_field (members_of FQuery ms)"
    and "OperationName (decode_json_body P N body) = string_field (members_of FOperationName ms)"
proof -
  obtain e opts where ob: "object_RequestOptions N ms zero_RequestOptions None = (e, opts)"
    by (cases "object_RequestOptions N ms zero_RequestOptions None")
  have q: "Query opts = string_field (members_of FQuery ms)"
    using object_RequestOptions_Query [of N ms zero_RequestOptions None] ob
    by (simp add: zero_RequestOptions_def foldl_store_string)
  have n: "OperationName opts = string_field (members_of FOperationName ms)"
    using object_RequestOptions_OperationName [of N ms zero_RequestOptions None] ob
    by (simp add: zero_RequestOptions_def foldl_store_string)
  show "Query (decode_json_body P N body) = string_field (members_of FQuery ms)"
    using q by (simp add: decode_json_body_def Unmarshal_RequestOptions_def assms ob
        split: prod.splits)
  show "OperationName (decode_json_body P N body) =
          string_field (members_of FOperationName ms)"
    using n by (simp add: decode_json_body_def Unmarshal_RequestOptions_def assms ob
        split: prod.splits)
qed

lemma decode_json_body_object_variables:
  assumes "P body = Some (JObject ms)"
    and "members_of FVariables ms = [JObject V]"
    and "fst (object_RequestOptions N ms zero_RequestOptions None) = None \<or> P [] = None"
  shows "Variables (decode_json_body P N body) = Some (go_members N V)"
proof -
  obtain e opts where ob: "object_RequestOptions N ms zero_RequestOptions None = (e, opts)"
    by (cases "object_RequestOptions N ms zero_RequestOptions None")
  obtain e1 c where oc:
    "object_requestOptionsCompatibility ms zero_requestOptionsCompatibility None = (e1, c)"
    by (cases "object_requestOptionsCompatibility ms zero_requestOptionsCompatibility None")
  have v: "Variables opts = Some (go_members N V)"
    using object_RequestOptions_Variables [of N ms zero_RequestOptions None] ob assms(2)
    by (simp add: zero_RequestOptions_def store_map_object_value del: store_map.simps)
  have cv: "cVariables c = []"
    using object_requestOptionsCompatibility_cVariables
            [of ms zero_requestOptionsCompatibility None] oc assms(2)
    by (simp add: zero_requestOptionsCompatibility_def)
  show ?thesis
  proof (cases "e = None")
    case True
    then show ?thesis
      using v by (simp add: decode_json_body_def Unmarshal_RequestOptions_def assms(1) ob)
  next
    case False
    then have "P [] = None" using assms(3) ob by auto
    then show ?thesis
      using False v
      by (simp add: decode_json_body_def Unmarshal_RequestOptions_def
          Unmarshal_requestOptionsCompatibility_def Unmarshal_map_def assms(1) ob oc cv)
  qed
qed

lemma decode_json_body_string_variables:
  assumes "P body = Some (JObject ms)"
    and "members_of FVariables ms = [JString s]"
  shows "Variables (decode_json_body P N body) = snd (Unmarshal_map P N s None)"
proof -
  obtain e opts where ob: "object_RequestOptions N ms zero_RequestOptions None = (e, opts)"
    by (cases "object_RequestOptions N ms zero_RequestOptions None")
  obtain e1 c where oc:
    "object_requestOptionsCompatibility ms zero_requestOptionsCompatibility None = (e1, c)"
    by (cases "object_requestOptionsCompatibility ms zero_requestOptionsCompatibility None")
  have "fst (object_RequestOptions N ms zero_RequestOptions None) \<noteq> None"
    by (simp add: object_RequestOptions_error assms(2))
  then have e: "e \<noteq> None" using ob by simp
  have v: "Variables opts = None"
    using object_RequestOptions_Variables [of N ms zero_RequestOptions None] ob assms(2)
    by (simp add: zero_RequestOptions_def)
  have cv: "cVariables c = s"
    using object_requestOptionsCompatibility_cVariables
            [of ms zero_requestOptionsCompatibility None] oc assms(2)
    by simp
  show ?thesis
    using e by (simp add: decode_json_body_def Unmarshal_RequestOptions_def
        Unmarshal_requestOptionsCompatibility_def assms(1) ob oc v cv split: prod.splits)
qed

lemma decode_json_body_malformed:
  assumes "P body = None" and "P [] = None"
  shows "decode_json_body P N body = zero_RequestOptions"
  using assms
  by (simp add: decode_json_body_def Unmarshal_RequestOptions_def
      Unmarshal_requestOptionsCompatibility_def Unmarshal_map_def
      zero_RequestOptions_def zero_requestOptionsCompatibility_def)

lemma decode_json_body_of_object:
  assumes "P body = Some (JObject ms)"
    and "members_of FVariables ms = [JObject V]"
    and "fst (object_RequestOptions N ms zero_RequestOptions None) = None \<or> P [] = None"
  shows "decode_json_body P N body =
           \<lparr>Query = string_field (members_of FQuery ms),
            Variables = Some (go_members N V),
            OperationName = string_field (members_of FOperationName ms)\<rparr>"
  using decode_json_body_strings [of P body ms N, OF assms(1)]
    decode_json_body_object_variables [of P body ms V N, OF assms]
  by (simp add: RequestOptions_eqI)

lemma decode_json_body_of_string:
  assumes "P body = Some (JObject ms)"
    and "members_of FVariables ms = [JString s]"
  shows "decode_json_body P N body =
           \<lparr>Query = string_field (members_of FQuery ms),
            Variables = snd (Unmarshal_map P N s None),
            OperationName = string_field (members_of FOperationName ms)\<rparr>"
  using decode_json_body_strings [of P body ms N, OF assms(1)]
    decode_json_body_string_variables [of P body ms s N, OF assms]
  by (simp add: RequestOptions_eqI)

lemma Unmarshal_map_object:
  "P s = Some (JObject V) \<Longrightarrow> snd (Unmarshal_map P N s None) = Some (go_members N V)"
  by (simp add: Unmarshal_map_def store_map_object_value del: store_map.simps)

lemma example_post_fields:
  "Get (URL_Query (example_post ct body)) ''query'' = []"
  "Method (example_post ct body) = ''POST''"
  "Body (example_post ct body) = Some (Bytes body)"
  "Get (Header (example_post ct body)) ''Content-Type'' = ct"
  by (simp_all add: example_post_def Get_def)

lemma first_token_json:
  "first_token ''application/json'' \<noteq> ContentTypeGraphQL"
  "first_token ''application/json'' \<noteq> ContentTypeFormURLEncoded"
  by (simp_all add: first_token_def ContentTypeGraphQL_def ContentTypeFormURLEncoded_def)

lemmas example_bodies =
  example_body_def example_body_string_variables_def example_body_big_number_def
  example_body_string_big_number_def example_body_no_operationName_def
  example_body_bad_variables_def

lemma example_parser_values:
  \<open>example_parser example_body =
     Some (JObject [(''query'', JString ''{ hero }''),
                    (''variables'', JObject [(''id'', JString ''7'')]),
                    (''operationName'', JString ''Q'')])\<close>
  \<open>example_parser example_body_string_variables =
     Some (JObject [(''query'', JString ''{ hero }''),
                    (''variables'', JString ''{"id":"7"}''),
                    (''operationName'', JString ''Q'')])\<close>
  \<open>example_parser example_body_big_number =
     Some (JObject [(''query'', JString ''{ hero }''),
                    (''variables'', JObject [(''n'', JNumber ''1e400'')]),
                    (''operationName'', JString ''Q'')])\<close>
  \<open>example_parser example_body_string_big_number =
     Some (JObject [(''query'', JString ''{ hero }''),
                    (''variables'', JString ''{"n":1e400}''),
                    (''operationName'', JString ''Q'')])\<close>
  \<open>example_parser example_body_no_operationName =
     Some (JObject [(''query'', JString ''{ hero }''),
                    (''variables'', JString ''{"id":7}'')])\<close>
  \<open>example_parser example_body_bad_variables =
     Some (JObject [(''query'', JString ''{ hero }''),
                    (''variables'', JString ''{oops'')])\<close>
  \<open>example_parser ''{"id":"7"}'' = Some (JObject [(''id'', JString ''7'')])\<close>
  \<open>example_parser ''{"n":1e400}'' = Some (JObject [(''n'', JNumber ''1e400'')])\<close>
  \<open>example_parser ''{"id":7}'' = Some (JObject [(''id'', JNumber ''7'')])\<close>
  \<open>example_parser [] = None\<close>
  \<open>example_parser ''{oops'' = None\<close>
  by (simp_all add: example_parser_def example_bodies)

lemma example_json_branch:
  "NewRequestOptions P N F (example_post ''application/json'' body) =
     (Inr (Some (decode_json_body P N body)), [ReadAll_Body])"
  using NewRequestOptions_json_branch
          [of "example_post ''application/json'' body" "Bytes body" P N F]
  by (simp add: example_post_fields first_token_json)

lemma example_json_post:
  "first_token (Get (Header (example_post ''application/json'' body)) ''Content-Type'')
     \<noteq> ContentTypeGraphQL"
  "first_token (Get (Header (example_post ''application/json'' body)) ''Content-Type'')
     \<noteq> ContentTypeFormURLEncoded"
  by (simp_all add: example_post_fields first_token_json)

lemma example_fields:
  "field_of ''query'' = Some FQuery"
  "field_of ''variables'' = Some FVariables"
  "field_of ''operationName'' = Some FOperationName"
  by code_simp+

lemmas example_members = members_of_Cons members_of_Nil example_fields

section \<open>The decoder: precedence of the query string\<close>

text \<open>
  Claim C1, as amended. When the first \<^verbatim>\<open>query\<close> value of the URL query string, the one
  that \<^verbatim>\<open>Get\<close> reads, is not empty, \<open>NewRequestOptions\<close> returns what \<open>getFromForm\<close>
  builds from the URL query values: the query is that value and the operation name is
  the first \<^verbatim>\<open>operationName\<close> value. Method, headers, body, and the form parser play no
  part, and the log of reads is empty: the body is not read.
\<close>

theorem C1_query_string_wins:
  assumes "Get (URL_Query r) ''query'' \<noteq> []"
  shows "\<exists>opts. NewRequestOptions P N F r = (Inr (Some opts), [])
           \<and> getFromForm P (URL_Query r) = Some opts
           \<and> Query opts = Get (URL_Query r) ''query''
           \<and> OperationName opts = Get (URL_Query r) ''operationName''"
  using assms by (simp add: NewRequestOptions_def getFromForm_Some)

theorem C1_query_string_wins_witness:
  "\<exists>opts. NewRequestOptions example_parser example_float example_form
             ((example_post ''application/json'' example_body)
                \<lparr>URL_Query := [''query'' \<mapsto> [''foo''], ''operationName'' \<mapsto> [''bar'']]\<rparr>)
             = (Inr (Some opts), [])
         \<and> Query opts = ''foo'' \<and> OperationName opts = ''bar''"
proof -
  let ?r = "(example_post ''application/json'' example_body)
              \<lparr>URL_Query := [''query'' \<mapsto> [''foo''], ''operationName'' \<mapsto> [''bar'']]\<rparr>"
  have q: "Get (URL_Query ?r) ''query'' \<noteq> []"
    by (simp add: Get_def)
  show ?thesis
    using C1_query_string_wins [of ?r example_parser example_float example_form, OF q]
    by (auto simp add: Get_def)
qed

text \<open>
  The claim as first stated speaks of a query string that contains a non-empty \<^verbatim>\<open>query\<close>
  parameter. The query string \<^verbatim>\<open>?query=&query=foo\<close> contains one, but \<^verbatim>\<open>Get\<close> reads the
  first value, which is empty: for a POST request with a JSON body the body is read and
  the options come from the body.
\<close>

theorem C1_repeated_query_counterexample:
  "NewRequestOptions example_parser example_float example_form
       ((example_post ''application/json'' example_body)
          \<lparr>URL_Query := [''query'' \<mapsto> [[], ''foo'']]\<rparr>)
     = (Inr (Some \<lparr>Query = ''{ hero }'', Variables = Some [''id'' \<mapsto> IString ''7''],
                   OperationName = ''Q''\<rparr>), [ReadAll_Body])"
proof -
  let ?r = "(example_post ''application/json'' example_body)
              \<lparr>URL_Query := [''query'' \<mapsto> [[], ''foo'']]\<rparr>"
  have 1: "Get (URL_Query ?r) ''query'' = []"
    by (simp add: Get_def)
  have 2: "Method ?r = ''POST''" and 3: "Body ?r = Some (Bytes example_body)"
    by (simp_all add: example_post_def)
  have 4: "first_token (Get (Header ?r) ''Content-Type'') \<noteq> ContentTypeGraphQL"
    and 5: "first_token (Get (Header ?r) ''Content-Type'') \<noteq> ContentTypeFormURLEncoded"
    by (simp_all add: example_post_def Get_def first_token_json)
  have "decode_json_body example_parser example_float example_body =
          \<lparr>Query = ''{ hero }'', Variables = Some [''id'' \<mapsto> IString ''7''],
           OperationName = ''Q''\<rparr>"
    using decode_json_body_of_object
            [of example_parser example_body _ "[(''id'', JString ''7'')]" example_float,
             OF example_parser_values(1)]
    by (simp add: example_members example_parser_values go_members_def string_field_def)
  then show ?thesis
    using NewRequestOptions_json_branch
            [of ?r "Bytes example_body" example_parser example_float example_form, OF 1 2 3 4 5]
    by simp
qed

text \<open>
  Claim C2. The claim says that in the query-string path and in the form path a
  \<^verbatim>\<open>variables\<close> field holding a JSON object is decoded into \<open>Variables\<close>. In the code
  \<^verbatim>\<open>getFromForm\<close> hands the nil map itself to the decoder, not a pointer to it, so nothing
  is ever stored: for the request \<^verbatim>\<open>GET ?query={ hero }&variables={"id":"7"}\<close> the result
  has the nil map, although the same reader decodes the same text into the one-entry map
  when it is given a pointer, as the JSON path does.
\<close>

theorem C2_variables_of_form_stay_nil:
  \<open>NewRequestOptions example_parser example_float example_form
       (example_get [''query'' \<mapsto> [''{ hero }''], ''variables'' \<mapsto> [''{"id":"7"}'']])
     = (Inr (Some \<lparr>Query = ''{ hero }'', Variables = None, OperationName = []\<rparr>), [])
   \<and> Unmarshal_map example_parser example_float ''{"id":"7"}'' None
       = (None, Some [''id'' \<mapsto> IString ''7''])\<close>
  by (simp add: NewRequestOptions_def getFromForm_def Get_def Unmarshal_value_def
      Unmarshal_map_def example_get_def example_parser_values set_members_def saveError_def)

section \<open>The decoder: the method gate and the body gate\<close>

text \<open>
  Claim C3. Without a non-empty \<^verbatim>\<open>query\<close> parameter in the query string, a request whose
  method is not POST, and a POST request without a body, both get the all-empty options,
  and the log of reads is empty.
\<close>

theorem C3_method_and_body_gates:
  assumes "Get (URL_Query r) ''query'' = []"
    and "Method r \<noteq> ''POST'' \<or> Body r = None"
  shows "NewRequestOptions P N F r =
           (Inr (Some \<lparr>Query = [], Variables = None, OperationName = []\<rparr>), [])"
  using assms by (auto simp add: NewRequestOptions_def getFromForm_None zero_RequestOptions_def)

theorem C3_method_and_body_gates_witness:
  "NewRequestOptions example_parser example_float example_form (example_get Map.empty)
     = (Inr (Some \<lparr>Query = [], Variables = None, OperationName = []\<rparr>), [])
   \<and> NewRequestOptions example_parser example_float example_form
       ((example_post ''application/json'' example_body)\<lparr>Body := None\<rparr>)
     = (Inr (Some \<lparr>Query = [], Variables = None, OperationName = []\<rparr>), [])"
proof -
  have a: "Get (URL_Query (example_get Map.empty)) ''query'' = []"
    by (simp add: example_get_def Get_def)
  have b: "Method (example_get Map.empty) \<noteq> ''POST'' \<or> Body (example_get Map.empty) = None"
    by (simp add: example_get_def)
  let ?p = "(example_post ''application/json'' example_body)\<lparr>Body := None\<rparr>"
  have c: "Get (URL_Query ?p) ''query'' = []"
    by (simp add: example_post_def Get_def)
  have d: "Method ?p \<noteq> ''POST'' \<or> Body ?p = None"
    by simp
  show ?thesis
    using C3_method_and_body_gates [OF a b, of example_parser example_float example_form]
      C3_method_and_body_gates [OF c d, of example_parser example_float example_form]
    by simp
qed

section \<open>The decoder: a raw GraphQL body\<close>

text \<open>
  Claim C4. A POST request without a query-string \<^verbatim>\<open>query\<close>, with a body, and with
  \<^verbatim>\<open>application/graphql\<close> as the first token of Content-Type gets the bytes of the body,
  unchanged, as the query, with the nil map and the empty operation name; when reading
  the body fails it gets the all-empty options.
\<close>

theorem C4_graphql_body:
  assumes "Get (URL_Query r) ''query'' = []"
    and "Method r = ''POST''"
    and "Body r = Some stream"
    and "first_token (Get (Header r) ''Content-Type'') = ContentTypeGraphQL"
  shows "NewRequestOptions P N F r =
           (case stream of
              Bytes body \<Rightarrow>
                (Inr (Some \<lparr>Query = body, Variables = None, OperationName = []\<rparr>),
                 [ReadAll_Body])
            | ReadFails \<Rightarrow> (Inr (Some zero_RequestOptions), [ReadAll_Body]))"
proof -
  obtain rest where
    "Split (Get (Header r) ''Content-Type'') (CHR '';'') = ContentTypeGraphQL # rest"
    using Split_first [of "Get (Header r) ''Content-Type''"] assms(4) by auto
  then show ?thesis
    using assms(1-3)
    by (simp add: NewRequestOptions_def getFromForm_None split: ReadCloser.splits)
qed

theorem C4_graphql_body_witness:
  "NewRequestOptions example_parser example_float example_form
       (example_post ''application/graphql'' ''query { field }'')
     = (Inr (Some \<lparr>Query = ''query { field }'', Variables = None, OperationName = []\<rparr>),
        [ReadAll_Body])"
proof -
  let ?r = "example_post ''application/graphql'' ''query { field }''"
  have t: "first_token (Get (Header ?r) ''Content-Type'') = ContentTypeGraphQL"
    by (simp add: example_post_fields first_token_def ContentTypeGraphQL_def)
  show ?thesis
    using C4_graphql_body [OF example_post_fields(1-3) t, of example_parser example_float
        example_form]
    by simp
qed

section \<open>The decoder: JSON bodies\<close>

text \<open>
  Claim C5, as amended. Take a POST request without a query-string \<^verbatim>\<open>query\<close> whose
  Content-Type has a first token other than \<^verbatim>\<open>application/graphql\<close> and
  \<^verbatim>\<open>application/x-www-form-urlencoded\<close> (so \<^verbatim>\<open>application/json\<close>, any other value, or no
  header at all), and whose body is a JSON object holding one \<^verbatim>\<open>query\<close> member with the
  string \<open>Q\<close>, one \<^verbatim>\<open>variables\<close> member with the object \<open>V\<close> and one \<^verbatim>\<open>operationName\<close>
  member with the string \<open>Op\<close>, in any order and possibly among members with other keys.
  Then the options are \<open>Q\<close>, the Go map that \<open>V\<close> denotes and \<open>Op\<close>. In that map every
  number is the \<^verbatim>\<open>float64\<close> of its literal, and \<^verbatim>\<open>nil\<close> stands for a literal out of range
  (given that the empty string is not JSON text, which the second decoding meets then).
\<close>

theorem C5_json_body:
  assumes "Get (URL_Query r) ''query'' = []"
    and "Method r = ''POST''"
    and "Body r = Some (Bytes body)"
    and "first_token (Get (Header r) ''Content-Type'') \<noteq> ContentTypeGraphQL"
    and "first_token (Get (Header r) ''Content-Type'') \<noteq> ContentTypeFormURLEncoded"
    and "P body = Some (JObject ms)"
    and "members_of FQuery ms = [JString Q]"
    and "members_of FVariables ms = [JObject V]"
    and "members_of FOperationName ms = [JString Op]"
    and "numbers_in_range N (JObject V) \<or> P [] = None"
  shows "NewRequestOptions P N F r =
           (Inr (Some \<lparr>Query = Q, Variables = Some (go_members N V), OperationName = Op\<rparr>),
            [ReadAll_Body])"
proof -
  have "fst (object_RequestOptions N ms zero_RequestOptions None) = None \<or> P [] = None"
    using assms(10)
    by (auto simp add: object_RequestOptions_error assms(7-9) store_map_object_error
        simp del: store_map.simps numbers_in_range.simps)
  then have "decode_json_body P N body =
          \<lparr>Query = Q, Variables = Some (go_members N V), OperationName = Op\<rparr>"
    using decode_json_body_of_object [of P body ms V N, OF assms(6) assms(8)]
    by (simp add: assms(7) assms(9) string_field_def)
  then show ?thesis
    using NewRequestOptions_json_branch [of r "Bytes body" P N F, OF assms(1-5)] by simp
qed

theorem C5_json_body_witness:
  "NewRequestOptions example_parser example_float example_form
       (example_post ''application/json'' example_body)
     = (Inr (Some \<lparr>Query = ''{ hero }'', Variables = Some [''id'' \<mapsto> IString ''7''],
                   OperationName = ''Q''\<rparr>), [ReadAll_Body])"
proof -
  let ?r = "example_post ''application/json'' example_body"
  let ?ms = "[(''query'', JString ''{ hero }''),
              (''variables'', JObject [(''id'', JString ''7'')]),
              (''operationName'', JString ''Q'')]"
  have 7: "members_of FQuery ?ms = [JString ''{ hero }'']"
    and 8: "members_of FVariables ?ms = [JObject [(''id'', JString ''7'')]]"
    and 9: "members_of FOperationName ?ms = [JString ''Q'']"
    by (simp_all add: example_members)
  have 10: "numbers_in_range example_float (JObject [(''id'', JString ''7'')])
              \<or> example_parser [] = None"
    by simp
  show ?thesis
    using C5_json_body [of ?r example_body example_parser ?ms "''{ hero }''"
        "[(''id'', JString ''7'')]" "''Q''" example_float example_form,
        OF example_post_fields(1-3) example_json_post example_parser_values(1) 7 8 9 10]
    by (simp add: go_members_def)
qed

text \<open>
  The claim as first stated promises exactly \<open>V\<close> as the variables. For the body
  \<^verbatim>\<open>{"query":"{ hero }","variables":{"n":1e400},"operationName":"Q"}\<close> the literal is out
  of the range of \<^verbatim>\<open>float64\<close>: the first decoding reports a type error and leaves \<^verbatim>\<open>nil\<close>
  under \<^verbatim>\<open>n\<close>, the second decoding changes nothing, and the variables hold \<^verbatim>\<open>nil\<close> where
  \<open>V\<close> holds a number.
\<close>

theorem C5_big_number_counterexample:
  "example_parser example_body_big_number =
     Some (JObject [(''query'', JString ''{ hero }''),
                    (''variables'', JObject [(''n'', JNumber ''1e400'')]),
                    (''operationName'', JString ''Q'')])
   \<and> example_float ''1e400'' = None
   \<and> NewRequestOptions example_parser example_float example_form
       (example_post ''application/json'' example_body_big_number)
     = (Inr (Some \<lparr>Query = ''{ hero }'', Variables = Some [''n'' \<mapsto> INil],
                   OperationName = ''Q''\<rparr>), [ReadAll_Body])"
proof -
  have "decode_json_body example_parser example_float example_body_big_number =
          \<lparr>Query = ''{ hero }'', Variables = Some [''n'' \<mapsto> INil], OperationName = ''Q''\<rparr>"
    using decode_json_body_of_object
            [of example_parser example_body_big_number _ "[(''n'', JNumber ''1e400'')]"
                example_float, OF example_parser_values(3)]
    by (simp add: example_members example_parser_values go_members_def string_field_def
        example_float_def)
  then show ?thesis
    by (simp add: example_json_branch example_parser_values example_float_def)
qed

text \<open>
  Claim C6, as amended. The same request, with a body that is a JSON object whose
  \<^verbatim>\<open>variables\<close> member holds a JSON string \<open>s\<close>, the text of a JSON object \<open>V\<close>. The first
  decoding stores the query and the operation name and reports a type error for
  \<^verbatim>\<open>variables\<close>; the second decoding reads \<open>s\<close> through the compatibility struct, and
  decoding \<open>s\<close> stores the Go map that \<open>V\<close> denotes, with every number as the \<^verbatim>\<open>float64\<close>
  of its literal and \<^verbatim>\<open>nil\<close> for a literal out of range. The query and the operation name
  are the strings of the body's \<^verbatim>\<open>query\<close> and \<^verbatim>\<open>operationName\<close> members, empty when a member
  is absent or \<^verbatim>\<open>null\<close>.
\<close>

theorem C6_string_variables:
  assumes "Get (URL_Query r) ''query'' = []"
    and "Method r = ''POST''"
    and "Body r = Some (Bytes body)"
    and "first_token (Get (Header r) ''Content-Type'') \<noteq> ContentTypeGraphQL"
    and "first_token (Get (Header r) ''Content-Type'') \<noteq> ContentTypeFormURLEncoded"
    and "P body = Some (JObject ms)"
    and "members_of FVariables ms = [JString s]"
    and "P s = Some (JObject V)"
  shows "NewRequestOptions P N F r =
           (Inr (Some \<lparr>Query = string_field (members_of FQuery ms),
                        Variables = Some (go_members N V),
                        OperationName = string_field (members_of FOperationName ms)\<rparr>),
            [ReadAll_Body])"
  using NewRequestOptions_json_branch [of r "Bytes body" P N F, OF assms(1-5)]
    decode_json_body_of_string [of P body ms s N, OF assms(6) assms(7)]
    Unmarshal_map_object [of P s V N, OF assms(8)]
  by simp

theorem C6_string_variables_witness:
  \<open>NewRequestOptions example_parser example_float example_form
       (example_post ''application/json'' example_body_string_variables)
     = (Inr (Some \<lparr>Query = ''{ hero }'', Variables = Some [''id'' \<mapsto> IString ''7''],
                   OperationName = ''Q''\<rparr>), [ReadAll_Body])
   \<and> NewRequestOptions example_parser example_float example_form
       (example_post ''application/json'' example_body_no_operationName)
     = (Inr (Some \<lparr>Query = ''{ hero }'', Variables = Some [''id'' \<mapsto> IFloat64 7],
                   OperationName = []\<rparr>), [ReadAll_Body])\<close>
proof -
  let ?ms1 = \<open>[(''query'', JString ''{ hero }''),
               (''variables'', JString ''{"id":"7"}''),
               (''operationName'', JString ''Q'')]\<close>
  let ?ms2 = \<open>[(''query'', JString ''{ hero }''), (''variables'', JString ''{"id":7}'')]\<close>
  have a: \<open>members_of FVariables ?ms1 = [JString ''{"id":"7"}'']\<close>
    and b: \<open>members_of FVariables ?ms2 = [JString ''{"id":7}'']\<close>
    by (simp_all add: example_members)
  show ?thesis
    using C6_string_variables [of "example_post ''application/json'' example_body_string_variables"
        example_body_string_variables example_parser ?ms1 \<open>''{"id":"7"}''\<close>
        "[(''id'', JString ''7'')]" example_float example_form,
        OF example_post_fields(1-3) example_json_post example_parser_values(2) a
           example_parser_values(7)]
      C6_string_variables [of "example_post ''application/json'' example_body_no_operationName"
        example_body_no_operationName example_parser ?ms2 \<open>''{"id":7}''\<close>
        "[(''id'', JNumber ''7'')]" example_float example_form,
        OF example_post_fields(1-3) example_json_post example_parser_values(5) b
           example_parser_values(9)]
    by (simp add: example_members go_members_def string_field_def example_float_def)
qed

text \<open>
  The claim as first stated promises the inner object itself as the variables. For the
  body \<^verbatim>\<open>{"query":"{ hero }","variables":"{\"n\":1e400}","operationName":"Q"}\<close> the inner
  literal is out of the range of \<^verbatim>\<open>float64\<close>, and the variables hold \<^verbatim>\<open>nil\<close> under \<^verbatim>\<open>n\<close>.
\<close>

theorem C6_big_number_counterexample:
  \<open>example_parser example_body_string_big_number =
     Some (JObject [(''query'', JString ''{ hero }''),
                    (''variables'', JString ''{"n":1e400}''),
                    (''operationName'', JString ''Q'')])
   \<and> example_parser ''{"n":1e400}'' = Some (JObject [(''n'', JNumber ''1e400'')])
   \<and> example_float ''1e400'' = None
   \<and> NewRequestOptions example_parser example_float example_form
       (example_post ''application/json'' example_body_string_big_number)
     = (Inr (Some \<lparr>Query = ''{ hero }'', Variables = Some [''n'' \<mapsto> INil],
                   OperationName = ''Q''\<rparr>), [ReadAll_Body])\<close>
proof -
  have \<open>decode_json_body example_parser example_float example_body_string_big_number =
          \<lparr>Query = ''{ hero }'', Variables = Some [''n'' \<mapsto> INil], OperationName = ''Q''\<rparr>\<close>
    using decode_json_body_of_string
            [of example_parser example_body_string_big_number _ \<open>''{"n":1e400}''\<close>
                example_float, OF example_parser_values(4)]
      Unmarshal_map_object [of example_parser \<open>''{"n":1e400}''\<close> "[(''n'', JNumber ''1e400'')]"
                example_float]
    by (simp add: example_members example_parser_values go_members_def string_field_def
        example_float_def)
  then show ?thesis
    by (simp add: example_json_branch example_parser_values example_float_def)
qed

section \<open>The decoder never fails\<close>

text \<open>
  Claim C7. For every JSON reader, every number conversion, every form parser and every
  request, \<open>NewRequestOptions\<close> returns a non-nil \<open>RequestOptions\<close> and does not panic: the
  index into the tokens of the Content-Type header is in range because \<open>Split\<close> never
  returns the empty list. Malformed input degrades to empty values: on the JSON path a
  body that is not JSON text gives the all-empty options (the empty string is not JSON
  text either), a body that cannot be read gives the all-empty options, on the form path
  a body that \<^verbatim>\<open>ParseForm\<close> rejects gives the all-empty options, and on the JSON path a
  \<^verbatim>\<open>variables\<close> string that is not JSON text gives the nil map next to the query and the
  operation name of the body.
\<close>

theorem C7_total:
  "(\<exists>opts. fst (NewRequestOptions P N F r) = Inr (Some opts))
   \<and> (Get (URL_Query r) ''query'' = [] \<and> Method r = ''POST''
        \<and> first_token (Get (Header r) ''Content-Type'') \<noteq> ContentTypeGraphQL
        \<and> first_token (Get (Header r) ''Content-Type'') \<noteq> ContentTypeFormURLEncoded
        \<and> (Body r = Some ReadFails
             \<or> (\<exists>body. Body r = Some (Bytes body) \<and> P body = None \<and> P [] = None))
      \<longrightarrow> fst (NewRequestOptions P N F r) = Inr (Some zero_RequestOptions))
   \<and> (Get (URL_Query r) ''query'' = [] \<and> Method r = ''POST'' \<and> Body r \<noteq> None
        \<and> first_token (Get (Header r) ''Content-Type'') = ContentTypeFormURLEncoded
        \<and> F r = None
      \<longrightarrow> fst (NewRequestOptions P N F r) = Inr (Some zero_RequestOptions))
   \<and> (Get (URL_Query r) ''query'' = [] \<and> Method r = ''POST''
        \<and> first_token (Get (Header r) ''Content-Type'') \<noteq> ContentTypeGraphQL
        \<and> first_token (Get (Header r) ''Content-Type'') \<noteq> ContentTypeFormURLEncoded
        \<and> Body r = Some (Bytes body) \<and> P body = Some (JObject ms)
        \<and> members_of FVariables ms = [JString s] \<and> P s = None
      \<longrightarrow> fst (NewRequestOptions P N F r) =
            Inr (Some \<lparr>Query = string_field (members_of FQuery ms), Variables = None,
                       OperationName = string_field (members_of FOperationName ms)\<rparr>))"
proof (intro conjI impI)
  show "\<exists>opts. fst (NewRequestOptions P N F r) = Inr (Some opts)"
    using Split_not_Nil [of "Get (Header r) ''Content-Type''" "CHR '';''"]
    by (auto simp add: NewRequestOptions_def Let_def
        split: option.splits list.splits ReadCloser.splits)
next
  assume a: "Get (URL_Query r) ''query'' = [] \<and> Method r = ''POST''
        \<and> first_token (Get (Header r) ''Content-Type'') \<noteq> ContentTypeGraphQL
        \<and> first_token (Get (Header r) ''Content-Type'') \<noteq> ContentTypeFormURLEncoded
        \<and> (Body r = Some ReadFails
             \<or> (\<exists>body. Body r = Some (Bytes body) \<and> P body = None \<and> P [] = None))"
  then consider "Body r = Some ReadFails"
    | body where "Body r = Some (Bytes body)" "P body = None" "P [] = None"
    by blast
  then show "fst (NewRequestOptions P N F r) = Inr (Some zero_RequestOptions)"
  proof cases
    case 1
    show ?thesis
      using NewRequestOptions_json_branch [of r ReadFails P N F] a 1 by simp
  next
    case 2
    show ?thesis
      using NewRequestOptions_json_branch [of r "Bytes body" P N F] a 2
        decode_json_body_malformed [of P body N]
      by simp
  qed
next
  assume a: "Get (URL_Query r) ''query'' = [] \<and> Method r = ''POST'' \<and> Body r \<noteq> None
        \<and> first_token (Get (Header r) ''Content-Type'') = ContentTypeFormURLEncoded
        \<and> F r = None"
  obtain rest where
    "Split (Get (Header r) ''Content-Type'') (CHR '';'') = ContentTypeFormURLEncoded # rest"
    using Split_first [of "Get (Header r) ''Content-Type''"] a by auto
  then show "fst (NewRequestOptions P N F r) = Inr (Some zero_RequestOptions)"
    using a
    by (auto simp add: NewRequestOptions_def getFromForm_None ContentTypeGraphQL_def
        ContentTypeFormURLEncoded_def)
next
  assume a: "Get (URL_Query r) ''query'' = [] \<and> Method r = ''POST''
        \<and> first_token (Get (Header r) ''Content-Type'') \<noteq> ContentTypeGraphQL
        \<and> first_token (Get (Header r) ''Content-Type'') \<noteq> ContentTypeFormURLEncoded
        \<and> Body r = Some (Bytes body) \<and> P body = Some (JObject ms)
        \<and> members_of FVariables ms = [JString s] \<and> P s = None"
  have "snd (Unmarshal_map P N s None) = None"
    using a by (simp add: Unmarshal_map_def)
  then show "fst (NewRequestOptions P N F r) =
            Inr (Some \<lparr>Query = string_field (members_of FQuery ms), Variables = None,
                       OperationName = string_field (members_of FOperationName ms)\<rparr>)"
    using NewRequestOptions_json_branch [of r "Bytes body" P N F] a
      decode_json_body_of_string [of P body ms s N]
    by simp
qed

theorem C7_total_witness:
  "fst (NewRequestOptions example_parser example_float example_form
         (example_post ''application/json'' ''{oops'')) = Inr (Some zero_RequestOptions)
   \<and> fst (NewRequestOptions example_parser example_float example_form
         (example_post ''application/x-www-form-urlencoded'' ''%zz''))
       = Inr (Some zero_RequestOptions)
   \<and> fst (NewRequestOptions example_parser example_float example_form
         (example_post ''application/json'' example_body_bad_variables))
       = Inr (Some \<lparr>Query = ''{ hero }'', Variables = None, OperationName = []\<rparr>)"
proof -
  let ?j = "example_post ''application/json'' ''{oops''"
  let ?f = "example_post ''application/x-www-form-urlencoded'' ''%zz''"
  let ?v = "example_post ''application/json'' example_body_bad_variables"
  let ?ms = "[(''query'', JString ''{ hero }''), (''variables'', JString ''{oops'')]"
  have t: "first_token (Get (Header ?f) ''Content-Type'') = ContentTypeFormURLEncoded"
    by (simp add: example_post_fields first_token_def ContentTypeFormURLEncoded_def)
  have b: "Body ?f \<noteq> None"
    by (simp add: example_post_fields)
  have m: "members_of FVariables ?ms = [JString ''{oops'']"
    by (simp add: example_members)
  show ?thesis
    using C7_total [of example_parser example_float example_form ?j]
      C7_total [of example_parser example_float example_form ?f]
      C7_total [of example_parser example_float example_form ?v example_body_bad_variables
                   ?ms "''{oops''"]
      t b m
    by (simp add: example_post_fields first_token_json example_parser_values
        example_members string_field_def example_form_def)
qed

section \<open>The decoder: only the first token of Content-Type matters\<close>

text \<open>
  Claim C8. A request with Content-Type \<^verbatim>\<open>application/json; charset=utf-8\<close> gets the same
  result, and the same log of reads, as that request with Content-Type
  \<^verbatim>\<open>application/json\<close>. In general two requests that differ only in their headers and
  whose Content-Type values have the same first token take the same branch and get the
  same result; on the form branch this holds as far as \<^verbatim>\<open>ParseForm\<close>, which reads the
  header itself, returns the same for both.
\<close>

theorem C8_first_token_only:
  "(Get (Header r) ''Content-Type'' = ''application/json; charset=utf-8''
      \<and> Get h ''Content-Type'' = ''application/json''
    \<longrightarrow> NewRequestOptions P N F (r\<lparr>Header := h\<rparr>) = NewRequestOptions P N F r)
   \<and> (first_token (Get h ''Content-Type'') = first_token (Get (Header r) ''Content-Type'')
      \<and> (first_token (Get h ''Content-Type'') = ContentTypeFormURLEncoded
            \<longrightarrow> F (r\<lparr>Header := h\<rparr>) = F r)
    \<longrightarrow> NewRequestOptions P N F (r\<lparr>Header := h\<rparr>) = NewRequestOptions P N F r)"
proof -
  have general: "NewRequestOptions P N F (r\<lparr>Header := h\<rparr>) = NewRequestOptions P N F r"
    if same: "first_token (Get h ''Content-Type'') = first_token (Get (Header r) ''Content-Type'')"
      and form: "first_token (Get h ''Content-Type'') = ContentTypeFormURLEncoded
            \<longrightarrow> F (r\<lparr>Header := h\<rparr>) = F r"
  proof -
    obtain rest where a: "Split (Get (Header r) ''Content-Type'') (CHR '';'') =
        first_token (Get (Header r) ''Content-Type'') # rest"
      using Split_first by blast
    obtain rest' where b: "Split (Get h ''Content-Type'') (CHR '';'') =
        first_token (Get (Header r) ''Content-Type'') # rest'"
      using Split_first [of "Get h ''Content-Type''"] same by auto
    show ?thesis
      using form by (auto simp add: NewRequestOptions_def a b same split: option.splits)
  qed
  have "NewRequestOptions P N F (r\<lparr>Header := h\<rparr>) = NewRequestOptions P N F r"
    if "Get (Header r) ''Content-Type'' = ''application/json; charset=utf-8''"
      and "Get h ''Content-Type'' = ''application/json''"
    using that by (intro general) (simp_all add: first_token_def ContentTypeFormURLEncoded_def)
  then show ?thesis
    using general by blast
qed

theorem C8_first_token_only_witness:
  "NewRequestOptions example_parser example_float example_form
       (example_post ''application/json; charset=utf-8'' example_body)
     = NewRequestOptions example_parser example_float example_form
         (example_post ''application/json'' example_body)"
proof -
  let ?r = "example_post ''application/json; charset=utf-8'' example_body"
  let ?h = "[''Content-Type'' \<mapsto> [''application/json'']]"
  have a: "Get (Header ?r) ''Content-Type'' = ''application/json; charset=utf-8''"
    by (simp add: example_post_fields)
  have b: "Get ?h ''Content-Type'' = ''application/json''"
    by (simp add: Get_def)
  have c: "?r\<lparr>Header := ?h\<rparr> = example_post ''application/json'' example_body"
    by (simp add: example_post_def)
  show ?thesis
    using C8_first_token_only [of ?r ?h example_parser example_float example_form] a b c by simp
qed

section \<open>Constructing a handler\<close>

text \<open>
  Claim C9. \<open>New\<close> panics with \<^verbatim>\<open>undefined GraphQL schema\<close> for every configuration whose
  schema is nil and for the nil argument, which is replaced by \<open>NewConfig\<close>, whose schema
  is nil; for every configuration with a schema it returns a handler that carries that
  schema.
\<close>

theorem C9_New_needs_schema:
  "(Config.Schema c = None \<longrightarrow> New (Some c) = Inl (Panic ''undefined GraphQL schema''))
   \<and> New None = (Inl (Panic ''undefined GraphQL schema'') :: go_panic + ('s, 'w) Handler)
   \<and> Config.Schema (NewConfig :: ('s, 'w) Config) = None
   \<and> (Config.Schema c = Some s
        \<longrightarrow> (\<exists>h. New (Some (c :: ('s, 'w) Config)) = Inr h \<and> Handler.Schema h = Some s))"
  by (simp add: New_def NewConfig_def)

theorem C9_New_needs_schema_witness:
  "New (Some ((NewConfig :: (nat, unit) Config))) = Inl (Panic ''undefined GraphQL schema'')
   \<and> (\<exists>h. New (Some ((NewConfig :: (nat, unit) Config)\<lparr>Config.Schema := Some 5\<rparr>)) = Inr h
          \<and> Handler.Schema h = Some 5)"
  using C9_New_needs_schema [of "NewConfig :: (nat, unit) Config" 5]
    C9_New_needs_schema [of "(NewConfig :: (nat, unit) Config)\<lparr>Config.Schema := Some 5\<rparr>" 5]
  by simp

text \<open>
  Claim C10. In the variant with the stack-trace setting, for every configuration with a
  schema, whatever its \<^verbatim>\<open>ShowFullStackTrace\<close>, the handler that \<open>New\<close> returns has
  \<^verbatim>\<open>ShowFullStackTrace\<close> false.
\<close>

theorem C10_New_drops_ShowFullStackTrace:
  assumes "Config_part_000.Schema c = Some s"
  shows "\<exists>h. New_part_000 (Some c) = Inr h
           \<and> Handler_part_000.ShowFullStackTrace h = False"
  using assms by (simp add: New_part_000_def)

theorem C10_New_drops_ShowFullStackTrace_witness:
  "\<exists>h. New_part_000
          (Some \<lparr>Config_part_000.Schema = Some (5::nat), Config_part_000.Pretty = True,
                 Config_part_000.LogSlowResponses = False,
                 Config_part_000.ShowFullStackTrace = True\<rparr>) = Inr h
      \<and> Handler_part_000.ShowFullStackTrace h = False"
  using C10_New_drops_ShowFullStackTrace
    [of "\<lparr>Config_part_000.Schema = Some (5::nat), Config_part_000.Pretty = True,
          Config_part_000.LogSlowResponses = False,
          Config_part_000.ShowFullStackTrace = True\<rparr>" 5]
  by simp

end
